theory Spec2Isabelle
  imports Complex_Main "HOL-Library.Char_ord" "HOL-Library.List_Lexorder"
    "HOL-Library.Product_Lexorder"
begin

section \<open>Numbers, errors and series reductions\<close>

text \<open>
  The dashboard computes with the scalars of its data-frame library. A scalar is a
  finite number, one of the two infinities, or NaN. Finite numbers are modelled as
  exact reals: the binary rounding of each float operation is not represented, the
  special values that division by zero and empty reductions produce are.
\<close>

datatype number = Fin real | PInf | NInf | NaN

datatype py_error = ZeroDivisionError | IndexError

text \<open>
  \<^verbatim>\<open>a / b\<close> where one operand is a library scalar or a series: no exception, a zero
  divisor gives an infinity (or NaN for 0/0), a NaN divisor gives NaN. Every dividend
  in the program is finite, and every zero divisor comes from an integer (so it is +0).
\<close>

fun np_true_divide :: "real \<Rightarrow> number \<Rightarrow> number" where
  "np_true_divide a (Fin b) =
     (if b = 0 then (if a = 0 then NaN else if 0 < a then PInf else NInf)
      else Fin (a / b))"
| "np_true_divide a PInf = Fin 0"
| "np_true_divide a NInf = Fin 0"
| "np_true_divide a NaN = NaN"

text \<open>\<^verbatim>\<open>x * c\<close> for a scalar \<open>x\<close> and a finite factor \<open>c\<close>.\<close>

fun np_multiply :: "number \<Rightarrow> real \<Rightarrow> number" where
  "np_multiply (Fin a) c = Fin (a * c)"
| "np_multiply PInf c = (if 0 < c then PInf else if c < 0 then NInf else NaN)"
| "np_multiply NInf c = (if 0 < c then NInf else if c < 0 then PInf else NaN)"
| "np_multiply NaN c = NaN"

text \<open>
  \<^verbatim>\<open>canceled_reservations / total_reservations\<close>: both operands are plain Python
  integers (\<^verbatim>\<open>df.shape[0]\<close>), so a zero divisor raises.
\<close>

definition py_truediv :: "int \<Rightarrow> int \<Rightarrow> py_error + real" where
  "py_truediv a b = (if b = 0 then Inl ZeroDivisionError else Inr (of_int a / of_int b))"

text \<open>The truth value of a scalar in \<^verbatim>\<open>... if x else 0\<close>: only zero is false; NaN is true.\<close>

fun truthy :: "number \<Rightarrow> bool" where
  "truthy (Fin a) = (a \<noteq> 0)"
| "truthy PInf = True"
| "truthy NInf = True"
| "truthy NaN = True"

text \<open>
  \<^verbatim>\<open>round(x, 2)\<close>: the nearest multiple of 1/100, a tie going to the even neighbour;
  infinities and NaN are returned as they are.
\<close>

definition rint :: "real \<Rightarrow> int" where
  "rint x =
     (let f = \<lfloor>x\<rfloor>; d = x - of_int f in
      if d < 1 / 2 then f else if 1 / 2 < d then f + 1 else if even f then f else f + 1)"

definition round2 :: "real \<Rightarrow> real" where
  "round2 x = of_int (rint (x * 100)) / 100"

fun py_round2 :: "number \<Rightarrow> number" where
  "py_round2 (Fin a) = Fin (round2 a)"
| "py_round2 PInf = PInf"
| "py_round2 NInf = NInf"
| "py_round2 NaN = NaN"

text \<open>
  \<^verbatim>\<open>Series.mean()\<close>: null cells are skipped; the mean of no value at all is NaN.
  \<^verbatim>\<open>Series.max()\<close> and \<^verbatim>\<open>Series.min()\<close> of a datetime column: \<open>None\<close> stands for
  NaT, the result on an empty column.
\<close>

definition dropna :: "'a option list \<Rightarrow> 'a list" where
  "dropna xs = List.map_filter (\<lambda>x. x) xs"

definition series_mean :: "real list \<Rightarrow> number" where
  "series_mean xs = (if xs = [] then NaN else Fin (sum_list xs / real (length xs)))"

fun series_max :: "int list \<Rightarrow> int option" where
  "series_max [] = None"
| "series_max (x # xs) = Some (fold max xs x)"

fun series_min :: "int list \<Rightarrow> int option" where
  "series_min [] = None"
| "series_min (x # xs) = Some (fold min xs x)"

text \<open>
  \<^verbatim>\<open>df.groupby(key)[col].sum().reset_index()\<close>: one line per key that occurs, keys in
  ascending order, each with the reduction of its rows.
\<close>

definition groupby :: "('r \<Rightarrow> 'k::linorder) \<Rightarrow> 'r list \<Rightarrow> ('k \<times> 'r list) list" where
  "groupby key rs = map (\<lambda>k. (k, filter (\<lambda>r. key r = k) rs)) (sort (remdups (map key rs)))"

definition groupby_sum ::
  "('r \<Rightarrow> 'k::linorder) \<Rightarrow> ('r \<Rightarrow> 'v::monoid_add) \<Rightarrow> 'r list \<Rightarrow> ('k \<times> 'v) list" where
  "groupby_sum key col rs = map (\<lambda>(k, g). (k, sum_list (map col g))) (groupby key rs)"

text \<open>
  A pie chart draws each slice with its percentage of the sum of the values: the
  plotting library computes it from the values the program hands over.
\<close>

definition pie_percent :: "('k \<times> real) list \<Rightarrow> ('k \<times> number) list" where
  "pie_percent slices =
     map (\<lambda>(k, v). (k, np_multiply (np_true_divide v (Fin (sum_list (map snd slices)))) 100))
       slices"

section \<open>The booking table\<close>

text \<open>
  A cell of a date column is either the text read from the file or a parsed
  timestamp. Dates are whole days, counted from a fixed day; a text cell carries the
  day that \<^verbatim>\<open>pd.to_datetime\<close> reads from it.
\<close>

datatype date_cell = Str int | Timestamp int

fun to_day :: "date_cell \<Rightarrow> int" where
  "to_day (Str d) = d"
| "to_day (Timestamp d) = d"

definition to_datetime :: "date_cell \<Rightarrow> date_cell" where
  "to_datetime c = Timestamp (to_day c)"

text \<open>
  One row of the merged frame (bookings with the review columns joined on). The
  check-in and check-out dates are the parsed ones that \<^verbatim>\<open>load_data\<close> stores; the
  booking date is still text when the frame reaches \<^verbatim>\<open>calculate_kpis\<close>. A rating
  cell is \<open>None\<close> when the booking has no review. \<open>nights\<close> and \<open>revenue\<close> hold no
  null cell.
\<close>

record booking =
  property_name :: string
  platform :: string
  status :: string
  checkin_date :: int
  checkout_date :: int
  booking_date :: date_cell
  nights :: int
  revenue :: real
  rating :: "real option"
  value_rating :: "real option"
  communication_rating :: "real option"
  location_rating :: "real option"
  cleanliness_rating :: "real option"
  accuracy_rating :: "real option"
  checkin_rating :: "real option"
  month :: int
  nightly_rate :: number
  lead_time :: int

text \<open>
  A frame is its rows and the names of the optional columns it has: the seven rating
  columns and the derived columns \<^verbatim>\<open>month\<close>, \<^verbatim>\<open>nightly_rate\<close> and \<^verbatim>\<open>lead_time\<close>. The
  eight booking columns above them are always there. The field of a row whose column
  is not listed is not part of the frame, and no function below reads it.
\<close>

record frame =
  columns :: "string list"
  rows :: "booking list"

definition assign_column :: "string \<Rightarrow> string list \<Rightarrow> string list" where
  "assign_column c cols = (if c \<in> set cols then cols else cols @ [c])"

section \<open>Loading\<close>

text \<open>
  \<^verbatim>\<open>load_data\<close> of \<^verbatim>\<open>Globlal_Dashboard.py\<close>, from the merged frame on: the month
  column (\<open>start_time\<close> is the calendar function that maps a day to the first day of
  its month) and the nightly rate, a series division.
\<close>

definition load_data_gd :: "(int \<Rightarrow> int) \<Rightarrow> frame \<Rightarrow> frame" where
  "load_data_gd start_time df =
     \<lparr>columns = assign_column ''nightly_rate'' (assign_column ''month'' (columns df)),
      rows = map (\<lambda>r. r\<lparr>month := start_time (checkin_date r),
                          nightly_rate := np_true_divide (revenue r) (Fin (of_int (nights r)))\<rparr>)
               (rows df)\<rparr>"

text \<open>\<^verbatim>\<open>load_data\<close> of \<^verbatim>\<open>test_version.py\<close>: the month column only.\<close>

definition load_data_tv :: "(int \<Rightarrow> int) \<Rightarrow> frame \<Rightarrow> frame" where
  "load_data_tv start_time df =
     \<lparr>columns = assign_column ''month'' (columns df),
      rows = map (\<lambda>r. r\<lparr>month := start_time (checkin_date r)\<rparr>) (rows df)\<rparr>"

section \<open>Filtering\<close>

text \<open>
  The filter of \<^verbatim>\<open>main\<close> (the same lines in both files): the check-in date within
  the two selected dates, then each selector only when its list is not empty.
  \<^verbatim>\<open>selected_dates[1]\<close> raises when fewer than two dates are selected.
\<close>

definition filtered_df ::
  "frame \<Rightarrow> int list \<Rightarrow> string list \<Rightarrow> string list \<Rightarrow> py_error + frame" where
  "filtered_df df selected_dates platform_filter property_filter =
     (if length selected_dates < 2 then Inl IndexError
      else
        let f1 = filter (\<lambda>r. selected_dates ! 0 \<le> checkin_date r \<and>
                              checkin_date r \<le> selected_dates ! 1) (rows df);
            f2 = (if platform_filter \<noteq> []
                  then filter (\<lambda>r. platform r \<in> set platform_filter) f1 else f1);
            f3 = (if property_filter \<noteq> []
                  then filter (\<lambda>r. property_name r \<in> set property_filter) f2 else f2)
        in Inr (df\<lparr>rows := f3\<rparr>))"

section \<open>The KPI aggregator\<close>

text \<open>
  The first lines of \<^verbatim>\<open>calculate_kpis\<close>, the same in both files: the two sums, the
  number of distinct properties, the period in days and the available nights. On a
  frame with no row the two date reductions are NaT, whose \<^verbatim>\<open>days\<close> is NaN.
\<close>

definition total_nights :: "frame \<Rightarrow> int" where
  "total_nights df = sum_list (map nights (rows df))"

definition total_revenue :: "frame \<Rightarrow> real" where
  "total_revenue df = sum_list (map revenue (rows df))"

definition num_properties :: "frame \<Rightarrow> nat" where
  "num_properties df = length (remdups (map property_name (rows df)))"

definition period_days :: "frame \<Rightarrow> number" where
  "period_days df =
     (case (series_max (map checkout_date (rows df)), series_min (map checkin_date (rows df))) of
        (Some hi, Some lo) \<Rightarrow> Fin (of_int (hi - lo + 1))
      | _ \<Rightarrow> NaN)"

definition total_available_nights :: "frame \<Rightarrow> number" where
  "total_available_nights df = np_multiply (period_days df) (real (num_properties df))"

text \<open>
  A rating average: \<^verbatim>\<open>round(df[c].mean(), 2) if c in df.columns else 0\<close>.
\<close>

definition rating_kpi :: "frame \<Rightarrow> string \<Rightarrow> (booking \<Rightarrow> real option) \<Rightarrow> number" where
  "rating_kpi df c col =
     (if c \<in> set (columns df) then py_round2 (series_mean (dropna (map col (rows df))))
      else Fin 0)"

text \<open>
  The seven rating entries of the mapping: the key, the column name that is looked up
  in \<^verbatim>\<open>df.columns\<close>, and the column.
\<close>

definition rating_kpis :: "(string \<times> string \<times> (booking \<Rightarrow> real option)) list" where
  "rating_kpis =
     [(''Average Rating'', ''rating'', rating),
      (''Value Rating'', ''value_rating'', value_rating),
      (''Communication Rating'', ''communication_rating'', communication_rating),
      (''Location Rating'', ''location_rating'', location_rating),
      (''Cleanliness Rating'', ''cleanliness_rating'', cleanliness_rating),
      (''Accuracy Rating'', ''accuracy_rating'', accuracy_rating),
      (''Check-in Rating'', ''checkin_rating'', checkin_rating)]"

text \<open>
  \<^verbatim>\<open>calculate_kpis\<close> of \<^verbatim>\<open>Globlal_Dashboard.py\<close>. It returns the mapping (the numbers,
  before they are formatted as text) and the frame as the call leaves it: the booking
  date column is replaced by its parsed form and a column \<^verbatim>\<open>lead_time\<close> is stored in
  the frame that was passed in. The column is first assigned the rounded time
  difference, which is not of integer type, so the branch that follows always
  reassigns it the whole days between booking and check-in.
\<close>

definition calculate_kpis_gd :: "frame \<Rightarrow> (string \<times> number) list \<times> frame" where
  "calculate_kpis_gd df =
     (let occupancy_rate =
            py_round2 (np_multiply
              (np_true_divide (of_int (total_nights df)) (total_available_nights df)) 100);
          adr = (if total_nights df \<noteq> 0
                 then py_round2 (np_true_divide (total_revenue df) (Fin (of_int (total_nights df))))
                 else Fin 0);
          revpar = (if truthy (total_available_nights df)
                    then py_round2 (np_true_divide (total_revenue df) (total_available_nights df))
                    else Fin 0);
          df1 = df\<lparr>rows := map (\<lambda>r. r\<lparr>booking_date := to_datetime (booking_date r)\<rparr>) (rows df)\<rparr>;
          df2 = \<lparr>columns = assign_column ''lead_time'' (columns df1),
                 rows = map (\<lambda>r. r\<lparr>lead_time := checkin_date r - to_day (booking_date r)\<rparr>)
                          (rows df1)\<rparr>;
          avg_lead_time =
            py_round2 (series_mean
              (map (\<lambda>r. of_int (checkin_date r - to_day (booking_date r))) (rows df2)));
          number_of_reservations = length (rows df2);
          average_length_of_stay =
            py_round2 (series_mean (map (\<lambda>r. of_int (nights r)) (rows df2)))
      in ([(''Total Revenue'', Fin (total_revenue df)),
           (''Occupancy Rate (%)'', occupancy_rate),
           (''Average Daily Rate (ADR)'', adr),
           (''Revenue Per Available Room (RevPAR)'', revpar),
           (''Average Lead Time (days)'', avg_lead_time),
           (''Average Length of Stay (nights)'', average_length_of_stay),
           (''Number of Reservations'', Fin (real number_of_reservations)),
           (''Average Rating'', rating_kpi df2 ''rating'' rating),
           (''Value Rating'', rating_kpi df2 ''value_rating'' value_rating),
           (''Communication Rating'', rating_kpi df2 ''communication_rating'' communication_rating),
           (''Location Rating'', rating_kpi df2 ''location_rating'' location_rating),
           (''Cleanliness Rating'', rating_kpi df2 ''cleanliness_rating'' cleanliness_rating),
           (''Accuracy Rating'', rating_kpi df2 ''accuracy_rating'' accuracy_rating),
           (''Check-in Rating'', rating_kpi df2 ''checkin_rating'' checkin_rating)],
          df2))"

text \<open>
  \<^verbatim>\<open>calculate_kpis\<close> of \<^verbatim>\<open>test_version.py\<close>. It stores no \<^verbatim>\<open>lead_time\<close> column and
  adds the cancellation rate, a division of two Python integers that raises
  \<^verbatim>\<open>ZeroDivisionError\<close> on a frame with no row; the booking date column has been
  replaced by then, so the frame is returned beside the result or the error.
\<close>

definition calculate_kpis_tv :: "frame \<Rightarrow> (py_error + (string \<times> number) list) \<times> frame" where
  "calculate_kpis_tv df =
     (let occupancy_rate =
            py_round2 (np_multiply
              (np_true_divide (of_int (total_nights df)) (total_available_nights df)) 100);
          adr = (if total_nights df \<noteq> 0
                 then py_round2 (np_true_divide (total_revenue df) (Fin (of_int (total_nights df))))
                 else Fin 0);
          revpar = (if truthy (total_available_nights df)
                    then py_round2 (np_true_divide (total_revenue df) (total_available_nights df))
                    else Fin 0);
          df1 = df\<lparr>rows := map (\<lambda>r. r\<lparr>booking_date := to_datetime (booking_date r)\<rparr>) (rows df)\<rparr>;
          avg_lead_time =
            py_round2 (series_mean
              (map (\<lambda>r. of_int (checkin_date r - to_day (booking_date r))) (rows df1)));
          number_of_reservations = length (rows df1);
          average_length_of_stay =
            py_round2 (series_mean (map (\<lambda>r. of_int (nights r)) (rows df1)));
          total_reservations = length (rows df1);
          canceled_reservations = length (filter (\<lambda>r. status r = ''cancelled'') (rows df1))
      in case py_truediv (int canceled_reservations) (int total_reservations) of
           Inl e \<Rightarrow> (Inl e, df1)
         | Inr q \<Rightarrow>
             (Inr [(''Occupancy Rate (%)'', occupancy_rate),
                   (''Average Daily Rate (ADR)'', adr),
                   (''Revenue Per Available Room (RevPAR)'', revpar),
                   (''Total Revenue'', Fin (total_revenue df)),
                   (''Average Lead Time (days)'', avg_lead_time),
                   (''Number of Reservations'', Fin (real number_of_reservations)),
                   (''Average Length of Stay (nights)'', average_length_of_stay),
                   (''Cancellation Rate (%)'', Fin (round2 (q * 100))),
                   (''Average Rating'', rating_kpi df1 ''rating'' rating),
                   (''Value Rating'', rating_kpi df1 ''value_rating'' value_rating),
                   (''Communication Rating'',
                      rating_kpi df1 ''communication_rating'' communication_rating),
                   (''Location Rating'', rating_kpi df1 ''location_rating'' location_rating),
                   (''Cleanliness Rating'', rating_kpi df1 ''cleanliness_rating'' cleanliness_rating),
                   (''Accuracy Rating'', rating_kpi df1 ''accuracy_rating'' accuracy_rating),
                   (''Check-in Rating'', rating_kpi df1 ''checkin_rating'' checkin_rating)],
              df1))"

section \<open>The chart series\<close>

text \<open>
  Each chart function is modelled by the data it hands to the plotting library,
  paired with the frame as the call leaves it.
\<close>

text \<open>\<^verbatim>\<open>plot_revenue_per_platform\<close> (\<^verbatim>\<open>Globlal_Dashboard.py\<close>).\<close>

definition plot_revenue_per_platform :: "frame \<Rightarrow> (string \<times> real) list \<times> frame" where
  "plot_revenue_per_platform df = (groupby_sum platform revenue (rows df), df)"

text \<open>\<^verbatim>\<open>plot_revenue_percentage_per_platform\<close> (the same lines in both files).\<close>

definition plot_revenue_percentage_per_platform :: "frame \<Rightarrow> (string \<times> real) list \<times> frame" where
  "plot_revenue_percentage_per_platform df = (groupby_sum platform revenue (rows df), df)"

text \<open>
  \<^verbatim>\<open>plot_nights_booked_percentage_per_platform\<close> of \<^verbatim>\<open>Globlal_Dashboard.py\<close>: the
  cancelled rows are filtered out first.
\<close>

definition plot_nights_booked_percentage_per_platform_gd ::
  "frame \<Rightarrow> (string \<times> int) list \<times> frame" where
  "plot_nights_booked_percentage_per_platform_gd df =
     (let filtered = filter (\<lambda>r. status r \<noteq> ''cancelled'') (rows df)
      in (groupby_sum platform nights filtered, df))"

text \<open>
  \<^verbatim>\<open>plot_nights_booked_percentage_per_platform\<close> of \<^verbatim>\<open>test_version.py\<close>: the same
  chart, grouped over all rows.
\<close>

definition plot_nights_booked_percentage_per_platform_tv ::
  "frame \<Rightarrow> (string \<times> int) list \<times> frame" where
  "plot_nights_booked_percentage_per_platform_tv df = (groupby_sum platform nights (rows df), df)"

text \<open>
  \<^verbatim>\<open>plot_stacked_revenue_by_property_platform\<close> of \<^verbatim>\<open>Globlal_Dashboard.py\<close>: revenue
  per (property, platform), and the per-property totals of the annotations.
\<close>

definition plot_stacked_revenue_by_property_platform_gd ::
  "frame \<Rightarrow> (((string \<times> string) \<times> real) list \<times> (string \<times> real) list) \<times> frame" where
  "plot_stacked_revenue_by_property_platform_gd df =
     (let revenue_per_property_platform =
            groupby_sum (\<lambda>r. (property_name r, platform r)) revenue (rows df);
          total_revenue_per_property =
            groupby_sum (\<lambda>l. fst (fst l)) snd revenue_per_property_platform
      in ((revenue_per_property_platform, total_revenue_per_property), df))"

text \<open>
  \<^verbatim>\<open>plot_stacked_revenue_by_property_platform\<close> of \<^verbatim>\<open>test_version.py\<close>: the rows go
  to the bar chart as they are.
\<close>

definition plot_stacked_revenue_by_property_platform_tv ::
  "frame \<Rightarrow> (string \<times> string \<times> real) list \<times> frame" where
  "plot_stacked_revenue_by_property_platform_tv df =
     (map (\<lambda>r. (property_name r, platform r, revenue r)) (rows df), df)"

text \<open>
  The three monthly functions of \<^verbatim>\<open>test_version.py\<close> begin by storing the parsed
  check-in and check-out dates (already parsed here) and the month column in the frame
  they were given.
\<close>

definition assign_month :: "(int \<Rightarrow> int) \<Rightarrow> frame \<Rightarrow> frame" where
  "assign_month start_time df =
     \<lparr>columns = assign_column ''month'' (columns df),
      rows = map (\<lambda>r. r\<lparr>month := start_time (checkin_date r)\<rparr>) (rows df)\<rparr>"

definition plot_monthly_revenue_line ::
  "(int \<Rightarrow> int) \<Rightarrow> frame \<Rightarrow> ((int \<times> string) \<times> real) list \<times> frame" where
  "plot_monthly_revenue_line start_time df =
     (let df1 = assign_month start_time df;
          monthly_revenue = groupby_sum (\<lambda>r. (month r, property_name r)) revenue (rows df1)
      in (monthly_revenue, df1))"

definition plot_monthly_occupancy_rate ::
  "(int \<Rightarrow> int) \<Rightarrow> frame \<Rightarrow> ((int \<times> string) \<times> number) list \<times> frame" where
  "plot_monthly_occupancy_rate start_time df =
     (let df1 = assign_month start_time df;
          active = filter (\<lambda>r. status r \<noteq> ''cancelled'') (rows df1);
          monthly_occupancy =
            map (\<lambda>(k, x). (k, np_true_divide (of_int (sum_list (map nights x)))
                                   (period_days (df1\<lparr>rows := x\<rparr>))))
              (groupby (\<lambda>r. (month r, property_name r)) active)
      in (monthly_occupancy, df1))"

definition plot_monthly_adr_line ::
  "(int \<Rightarrow> int) \<Rightarrow> frame \<Rightarrow> ((int \<times> string) \<times> real \<times> int \<times> number) list \<times> frame" where
  "plot_monthly_adr_line start_time df =
     (let df1 = assign_month start_time df;
          monthly_data =
            map (\<lambda>(k, x). (k, sum_list (map revenue x), sum_list (map nights x)))
              (groupby (\<lambda>r. (month r, property_name r)) (rows df1))
      in (map (\<lambda>(k, total, n). (k, total, n, np_true_divide total (Fin (of_int n)))) monthly_data,
          df1))"

section \<open>Example tables\<close>

text \<open>The rating columns that \<^verbatim>\<open>load_data\<close> joins on, and a booking with no review.\<close>

definition review_columns :: "string list" where
  "review_columns =
     [''rating'', ''value_rating'', ''communication_rating'', ''location_rating'',
      ''cleanliness_rating'', ''accuracy_rating'', ''checkin_rating'']"

definition booking_row ::
  "string \<Rightarrow> string \<Rightarrow> string \<Rightarrow> int \<Rightarrow> int \<Rightarrow> int \<Rightarrow> int \<Rightarrow> real \<Rightarrow> booking" where
  "booking_row prop plat st cin cout booked n amount =
     \<lparr>property_name = prop, platform = plat, status = st, checkin_date = cin,
      checkout_date = cout, booking_date = Str booked, nights = n, revenue = amount,
      rating = None, value_rating = None, communication_rating = None,
      location_rating = None, cleanliness_rating = None, accuracy_rating = None,
      checkin_rating = None, month = 0, nightly_rate = NaN, lead_time = 0\<rparr>"

text \<open>
  The scenario of the specification: property A on airbnb with two bookings (revenue
  100 and 200, two nights each, the second cancelled) and property B on vrbo with one
  confirmed booking (revenue 150, three nights).
\<close>

definition scenario_table :: frame where
  "scenario_table =
     \<lparr>columns = review_columns @ [''month''],
      rows = [booking_row ''A'' ''airbnb'' ''confirmed'' 0 2 (- 10) 2 100,
              booking_row ''A'' ''airbnb'' ''cancelled'' 5 7 (- 3) 2 200,
              booking_row ''B'' ''vrbo'' ''confirmed'' 10 13 1 3 150]\<rparr>"

definition empty_table :: frame where
  "empty_table = \<lparr>columns = review_columns @ [''month''], rows = []\<rparr>"



text \<open>A booking of no night, and a booking whose check-out is the day before its check-in.\<close>

definition zero_nights_table :: frame where
  "zero_nights_table =
     \<lparr>columns = review_columns,
      rows = [booking_row ''A'' ''airbnb'' ''confirmed'' 4 4 1 0 100]\<rparr>"

definition inverted_dates_table :: frame where
  "inverted_dates_table =
     \<lparr>columns = review_columns @ [''month''],
      rows = [booking_row ''A'' ''airbnb'' ''confirmed'' 10 9 1 1 100]\<rparr>"

section \<open>Properties of the library operations\<close>

lemma rint_of_int: "rint (of_int n) = n"
  by (simp add: rint_def)





text \<open>Rounding to two decimals moves a number by at most half a hundredth.\<close>

lemma round2_close: "\<bar>round2 x - x\<bar> \<le> 1 / 200"
proof -
  have "\<bar>of_int (rint y) - y\<bar> \<le> 1 / 2" for y :: real
    unfolding rint_def Let_def by (auto; linarith)
  from this [of "x * 100"] show ?thesis
    by (simp add: round2_def field_simps)
qed




lemma series_max_Max: "xs \<noteq> [] \<Longrightarrow> series_max xs = Some (Max (set xs))"
  by (cases xs) (simp_all add: Max.set_eq_fold [symmetric])

lemma series_min_Min: "xs \<noteq> [] \<Longrightarrow> series_min xs = Some (Min (set xs))"
  by (cases xs) (simp_all add: Min.set_eq_fold [symmetric])

lemma dropna_reviewed:
  "dropna (map col rs) = map (\<lambda>r. the (col r)) (filter (\<lambda>r. col r \<noteq> None) rs)"
  by (induction rs) (auto simp: dropna_def split: option.splits)

text \<open>A grouped sum has one line per key that occurs, in ascending key order.\<close>

lemma map_of_groupby_sum:
  "map_of (groupby_sum key col rs) k =
     (if k \<in> key ` set rs then Some (sum_list (map col (filter (\<lambda>r. key r = k) rs))) else None)"
proof -
  have "groupby_sum key col rs =
      map (\<lambda>k. (k, sum_list (map col (filter (\<lambda>r. key r = k) rs)))) (sort (remdups (map key rs)))"
    by (simp add: groupby_sum_def groupby_def)
  then show ?thesis
    by (simp add: map_of_map_restrict restrict_map_def)
qed

lemma groupby_sum_keys: "map fst (groupby_sum key col rs) = sort (remdups (map key rs))"
  by (simp add: groupby_sum_def groupby_def comp_def case_prod_unfold)

lemma groupby_sum_sorted: "sorted (map fst (groupby_sum key col rs))"
  by (simp add: groupby_sum_keys)

lemma groupby_sum_distinct: "distinct (map fst (groupby_sum key col rs))"
  by (simp add: groupby_sum_keys)

lemma in_assign_column: "c \<in> set (assign_column d cols) \<longleftrightarrow> c = d \<or> c \<in> set cols"
  by (auto simp: assign_column_def)

lemma to_day_to_datetime: "to_day (to_datetime c) = to_day c"
  by (simp add: to_datetime_def)

section \<open>Closed forms of the aggregator\<close>

lemma total_nights_pos_nonempty: "0 < total_nights df \<Longrightarrow> rows df \<noteq> []"
  by (auto simp: total_nights_def)

lemma rating_kpi_frame:
  "(c \<in> set (columns a) \<longleftrightarrow> c \<in> set (columns b)) \<Longrightarrow> map col (rows a) = map col (rows b) \<Longrightarrow>
   rating_kpi a c col = rating_kpi b c col"
  by (simp add: rating_kpi_def)

text \<open>
  A rating average in the words of the reviewed rows: 0 without the column, NaN when
  no row has a value, else the rounded mean over the rows that have one.
\<close>

lemma rating_kpi_value:
  "rating_kpi df c col =
     (if c \<in> set (columns df)
      then (if filter (\<lambda>r. col r \<noteq> None) (rows df) = [] then NaN
            else Fin (round2 (sum_list (map (\<lambda>r. the (col r)) (filter (\<lambda>r. col r \<noteq> None) (rows df))) /
                              real (length (filter (\<lambda>r. col r \<noteq> None) (rows df))))))
      else Fin 0)"
  by (simp add: rating_kpi_def series_mean_def dropna_reviewed)

lemma gd_snd:
  "snd (calculate_kpis_gd df) =
     \<lparr>columns = assign_column ''lead_time'' (columns df),
      rows = map (\<lambda>r. r\<lparr>booking_date := Timestamp (to_day (booking_date r)),
                          lead_time := checkin_date r - to_day (booking_date r)\<rparr>) (rows df)\<rparr>"
  by (simp add: calculate_kpis_gd_def Let_def to_datetime_def comp_def)

lemma tv_snd:
  "snd (calculate_kpis_tv df) =
     df\<lparr>rows := map (\<lambda>r. r\<lparr>booking_date := Timestamp (to_day (booking_date r))\<rparr>) (rows df)\<rparr>"
  by (simp add: calculate_kpis_tv_def Let_def to_datetime_def split: sum.splits)

lemma gd_fst:
  "fst (calculate_kpis_gd df) =
     [(''Total Revenue'', Fin (total_revenue df)),
      (''Occupancy Rate (%)'',
         py_round2 (np_multiply
           (np_true_divide (of_int (total_nights df)) (total_available_nights df)) 100)),
      (''Average Daily Rate (ADR)'',
         if total_nights df \<noteq> 0
         then py_round2 (np_true_divide (total_revenue df) (Fin (of_int (total_nights df))))
         else Fin 0),
      (''Revenue Per Available Room (RevPAR)'',
         if truthy (total_available_nights df)
         then py_round2 (np_true_divide (total_revenue df) (total_available_nights df))
         else Fin 0),
      (''Average Lead Time (days)'',
         py_round2 (series_mean
           (map (\<lambda>r. of_int (checkin_date r - to_day (booking_date r))) (rows df)))),
      (''Average Length of Stay (nights)'',
         py_round2 (series_mean (map (\<lambda>r. of_int (nights r)) (rows df)))),
      (''Number of Reservations'', Fin (real (length (rows df)))),
      (''Average Rating'', rating_kpi df ''rating'' rating),
      (''Value Rating'', rating_kpi df ''value_rating'' value_rating),
      (''Communication Rating'', rating_kpi df ''communication_rating'' communication_rating),
      (''Location Rating'', rating_kpi df ''location_rating'' location_rating),
      (''Cleanliness Rating'', rating_kpi df ''cleanliness_rating'' cleanliness_rating),
      (''Accuracy Rating'', rating_kpi df ''accuracy_rating'' accuracy_rating),
      (''Check-in Rating'', rating_kpi df ''checkin_rating'' checkin_rating)]"
proof -
  have r: "rating_kpi
      \<lparr>columns = assign_column ''lead_time'' (columns df),
       rows = map (\<lambda>r. r\<lparr>booking_date := g r, lead_time := f r\<rparr>) (rows df)\<rparr> c col =
      rating_kpi df c col"
    if "c \<noteq> ''lead_time''" and "\<And>r a b. col (r\<lparr>booking_date := a, lead_time := b\<rparr>) = col r"
    for c col f g
    using that by (intro rating_kpi_frame) (simp_all add: in_assign_column comp_def)
  show ?thesis
    by (simp add: calculate_kpis_gd_def Let_def r comp_def to_day_to_datetime split del: if_split)
qed

lemma tv_fst:
  "rows df \<noteq> [] \<Longrightarrow>
   fst (calculate_kpis_tv df) =
     Inr [(''Occupancy Rate (%)'',
             py_round2 (np_multiply
               (np_true_divide (of_int (total_nights df)) (total_available_nights df)) 100)),
          (''Average Daily Rate (ADR)'',
             if total_nights df \<noteq> 0
             then py_round2 (np_true_divide (total_revenue df) (Fin (of_int (total_nights df))))
             else Fin 0),
          (''Revenue Per Available Room (RevPAR)'',
             if truthy (total_available_nights df)
             then py_round2 (np_true_divide (total_revenue df) (total_available_nights df))
             else Fin 0),
          (''Total Revenue'', Fin (total_revenue df)),
          (''Average Lead Time (days)'',
             py_round2 (series_mean
               (map (\<lambda>r. of_int (checkin_date r - to_day (booking_date r))) (rows df)))),
          (''Number of Reservations'', Fin (real (length (rows df)))),
          (''Average Length of Stay (nights)'',
             py_round2 (series_mean (map (\<lambda>r. of_int (nights r)) (rows df)))),
          (''Cancellation Rate (%)'',
             Fin (round2 (real (length (filter (\<lambda>r. status r = ''cancelled'') (rows df))) /
                          real (length (rows df)) * 100))),
          (''Average Rating'', rating_kpi df ''rating'' rating),
          (''Value Rating'', rating_kpi df ''value_rating'' value_rating),
          (''Communication Rating'', rating_kpi df ''communication_rating'' communication_rating),
          (''Location Rating'', rating_kpi df ''location_rating'' location_rating),
          (''Cleanliness Rating'', rating_kpi df ''cleanliness_rating'' cleanliness_rating),
          (''Accuracy Rating'', rating_kpi df ''accuracy_rating'' accuracy_rating),
          (''Check-in Rating'', rating_kpi df ''checkin_rating'' checkin_rating)]"
proof -
  assume ne: "rows df \<noteq> []"
  have r: "rating_kpi (df\<lparr>rows := map (\<lambda>r. r\<lparr>booking_date := g r\<rparr>) (rows df)\<rparr>) c col =
      rating_kpi df c col"
    if "\<And>r a. col (r\<lparr>booking_date := a\<rparr>) = col r" for c col g
    using that by (intro rating_kpi_frame) (simp_all add: comp_def)
  from ne show ?thesis
    by (simp add: calculate_kpis_tv_def Let_def py_truediv_def r comp_def to_day_to_datetime
        filter_map split del: if_split)
qed

lemma tv_raises: "rows df = [] \<Longrightarrow> fst (calculate_kpis_tv df) = Inl ZeroDivisionError"
  by (simp add: calculate_kpis_tv_def Let_def py_truediv_def)

lemma gd_rating_lookup:
  assumes "(key, c, col) \<in> set rating_kpis"
  shows "map_of (fst (calculate_kpis_gd df)) key = Some (rating_kpi df c col)"
  using assms unfolding gd_fst rating_kpis_def by (elim disjE conjE | simp)+


text \<open>
  The two mappings hold the same entries under the fourteen keys they share, whatever
  the order of the entries.
\<close>

lemma kpi_lists_agree:
  "k \<noteq> ''Cancellation Rate (%)'' \<Longrightarrow>
   map_of [(''Occupancy Rate (%)'', a2), (''Average Daily Rate (ADR)'', a3),
           (''Revenue Per Available Room (RevPAR)'', a4), (''Total Revenue'', a1),
           (''Average Lead Time (days)'', a5), (''Number of Reservations'', a7),
           (''Average Length of Stay (nights)'', a6), (''Cancellation Rate (%)'', c),
           (''Average Rating'', b1), (''Value Rating'', b2), (''Communication Rating'', b3),
           (''Location Rating'', b4), (''Cleanliness Rating'', b5), (''Accuracy Rating'', b6),
           (''Check-in Rating'', b7)] k =
   map_of [(''Total Revenue'', a1), (''Occupancy Rate (%)'', a2),
           (''Average Daily Rate (ADR)'', a3), (''Revenue Per Available Room (RevPAR)'', a4),
           (''Average Lead Time (days)'', a5), (''Average Length of Stay (nights)'', a6),
           (''Number of Reservations'', a7),
           (''Average Rating'', b1), (''Value Rating'', b2), (''Communication Rating'', b3),
           (''Location Rating'', b4), (''Cleanliness Rating'', b5), (''Accuracy Rating'', b6),
           (''Check-in Rating'', b7)] (k::string)"
  by auto

section \<open>Nights booked per platform\<close>

text \<open>
  In \<^verbatim>\<open>Globlal_Dashboard.py\<close> the nights of a platform are summed over its rows that
  are not cancelled, a platform with no such row has no slice, and the slices come in
  the order of the platform labels.
\<close>

lemma nights_booked_gd_lookup:
  "map_of (fst (plot_nights_booked_percentage_per_platform_gd df)) p =
     (if p \<in> platform ` {r \<in> set (rows df). status r \<noteq> ''cancelled''}
      then Some (sum_list (map nights
             (filter (\<lambda>r. platform r = p) (filter (\<lambda>r. status r \<noteq> ''cancelled'') (rows df)))))
      else None)"
  by (simp add: plot_nights_booked_percentage_per_platform_gd_def map_of_groupby_sum)

lemma nights_booked_gd_order:
  "sorted (map fst (fst (plot_nights_booked_percentage_per_platform_gd df))) \<and>
   distinct (map fst (fst (plot_nights_booked_percentage_per_platform_gd df)))"
  by (simp add: plot_nights_booked_percentage_per_platform_gd_def groupby_sum_sorted
      groupby_sum_distinct)

lemma scenario_revenue_per_platform:
  "fst (plot_revenue_per_platform scenario_table) = [(''airbnb'', 300), (''vrbo'', 150)]"
  by (simp add: plot_revenue_per_platform_def scenario_table_def groupby_sum_def groupby_def
      booking_row_def)

lemma scenario_nights_share_gd:
  "pie_percent (map (\<lambda>(k, n). (k, real_of_int n))
      (fst (plot_nights_booked_percentage_per_platform_gd scenario_table))) =
     [(''airbnb'', Fin 40), (''vrbo'', Fin 60)]"
  by (simp add: plot_nights_booked_percentage_per_platform_gd_def scenario_table_def
      groupby_sum_def groupby_def booking_row_def pie_percent_def)

text \<open>
  C1. The nights-per-platform aggregation removes the cancelled rows before it groups
  and sums, on the scenario table that leaves airbnb 2 and vrbo 3, and every
  nights-booked aggregation applies the exclusion. The function of
  \<^verbatim>\<open>Globlal_Dashboard.py\<close> does so; the function of the same name in
  \<^verbatim>\<open>test_version.py\<close> groups all rows, and on the scenario table it counts the two
  cancelled nights: airbnb 4, vrbo 3.
\<close>

theorem nights_booked_tv_counts_cancelled:
  "fst (plot_nights_booked_percentage_per_platform_tv scenario_table) =
     [(''airbnb'', 4), (''vrbo'', 3)] \<and>
   fst (plot_nights_booked_percentage_per_platform_gd scenario_table) =
     [(''airbnb'', 2), (''vrbo'', 3)]"
  by (simp add: plot_nights_booked_percentage_per_platform_tv_def
      plot_nights_booked_percentage_per_platform_gd_def scenario_table_def groupby_sum_def
      groupby_def booking_row_def)

section \<open>The empty table\<close>

text \<open>
  A selection that matches no booking (here the platform of one property with the
  name of the other) hands a frame with no row to the aggregator.
\<close>

lemma empty_selection_reaches_aggregator:
  "\<exists>df'. filtered_df scenario_table [0, 13] [''vrbo''] [''A''] = Inr df' \<and> rows df' = [] \<and>
     fst (calculate_kpis_tv df') = Inl ZeroDivisionError"
  by (simp add: filtered_df_def Let_def scenario_table_def booking_row_def tv_raises)

theorem empty_table_nan_and_error:
  "map_of (fst (calculate_kpis_gd empty_table)) ''Average Lead Time (days)'' = Some NaN \<and>
   fst (calculate_kpis_tv empty_table) = Inl ZeroDivisionError"
  by (simp add: gd_fst tv_raises empty_table_def series_mean_def)

text \<open>
  C2, as amended. On a table with no row, \<^verbatim>\<open>calculate_kpis\<close> of
  \<^verbatim>\<open>Globlal_Dashboard.py\<close> raises nothing and returns 0 for the ADR and for the
  number of reservations, NaN for the lead time and for the length of stay, and for
  each rating NaN when the table has the column and 0 when it has not;
  \<^verbatim>\<open>calculate_kpis\<close> of \<^verbatim>\<open>test_version.py\<close> raises \<^verbatim>\<open>ZeroDivisionError\<close>.
\<close>

theorem empty_table_kpis:
  assumes "rows df = []"
  shows "map_of (fst (calculate_kpis_gd df)) ''Average Daily Rate (ADR)'' = Some (Fin 0) \<and>
    map_of (fst (calculate_kpis_gd df)) ''Number of Reservations'' = Some (Fin 0) \<and>
    map_of (fst (calculate_kpis_gd df)) ''Average Lead Time (days)'' = Some NaN \<and>
    map_of (fst (calculate_kpis_gd df)) ''Average Length of Stay (nights)'' = Some NaN \<and>
    (\<forall>(key, c, col) \<in> set rating_kpis.
       map_of (fst (calculate_kpis_gd df)) key =
         Some (if c \<in> set (columns df) then NaN else Fin 0)) \<and>
    fst (calculate_kpis_tv df) = Inl ZeroDivisionError"
proof -
  have "total_nights df = 0"
    using assms by (simp add: total_nights_def)
  then have adr: "map_of (fst (calculate_kpis_gd df)) ''Average Daily Rate (ADR)'' = Some (Fin 0)"
    by (simp add: gd_fst)
  have n: "map_of (fst (calculate_kpis_gd df)) ''Number of Reservations'' = Some (Fin 0)"
    using assms by (simp add: gd_fst)
  have lead: "map_of (fst (calculate_kpis_gd df)) ''Average Lead Time (days)'' = Some NaN"
    using assms by (simp add: gd_fst series_mean_def)
  have stay: "map_of (fst (calculate_kpis_gd df)) ''Average Length of Stay (nights)'' = Some NaN"
    using assms by (simp add: gd_fst series_mean_def)
  have "rating_kpi df c col = (if c \<in> set (columns df) then NaN else Fin 0)" for c col
    using assms by (simp add: rating_kpi_value)
  then have ratings: "\<forall>(key, c, col) \<in> set rating_kpis.
       map_of (fst (calculate_kpis_gd df)) key =
         Some (if c \<in> set (columns df) then NaN else Fin 0)"
    using gd_rating_lookup [of _ _ _ df] by fastforce
  from adr n lead stay ratings tv_raises [OF assms] show ?thesis
    by blast
qed

theorem empty_table_kpis_witness:
  "rows empty_table = [] \<and>
   map_of (fst (calculate_kpis_gd empty_table)) ''Average Daily Rate (ADR)'' = Some (Fin 0) \<and>
   map_of (fst (calculate_kpis_gd empty_table)) ''Average Length of Stay (nights)'' = Some NaN \<and>
   map_of (fst (calculate_kpis_gd empty_table)) ''Cleanliness Rating'' = Some NaN \<and>
   fst (calculate_kpis_tv empty_table) = Inl ZeroDivisionError"
proof -
  have h: "rows empty_table = []"
    by (simp add: empty_table_def)
  have m: "(''Cleanliness Rating'', ''cleanliness_rating'', cleanliness_rating) \<in> set rating_kpis"
    by (simp add: rating_kpis_def)
  have c: "''cleanliness_rating'' \<in> set (columns empty_table)"
    by (simp add: empty_table_def review_columns_def)
  from empty_table_kpis [OF h] m c h show ?thesis
    by fastforce
qed

section \<open>What the functions do to the frame they are given\<close>

lemma assign_month_unchanged:
  assumes "''month'' \<in> set (columns df)"
    and "\<forall>r \<in> set (rows df). month r = start_time (checkin_date r)"
  shows "assign_month start_time df = df"
proof -
  have "map (\<lambda>r. r\<lparr>month := start_time (checkin_date r)\<rparr>) (rows df) = rows df"
    using assms(2) by (intro map_idI) simp
  with assms(1) show ?thesis
    by (simp add: assign_month_def assign_column_def)
qed

text \<open>A frame that \<^verbatim>\<open>load_data\<close> built has the month column the monthly charts store.\<close>

lemma load_data_tv_month:
  "''month'' \<in> set (columns (load_data_tv start_time df)) \<and>
   (\<forall>r \<in> set (rows (load_data_tv start_time df)). month r = start_time (checkin_date r))"
  by (simp add: load_data_tv_def in_assign_column)

lemma filtered_df_frame:
  assumes "filtered_df df selected_dates P Q = Inr df'"
  shows "columns df' = columns df \<and> set (rows df') \<subseteq> set (rows df) \<and>
    length (rows df') \<le> length (rows df)"
proof -
  from assms have "\<exists>keep. df' = df\<lparr>rows := filter keep (rows df)\<rparr>"
    by (auto simp: filtered_df_def Let_def split: if_splits)
  then obtain keep where "df' = df\<lparr>rows := filter keep (rows df)\<rparr>"
    by blast
  then show ?thesis
    by simp
qed

text \<open>
  The monthly charts leave any filter of a frame that \<^verbatim>\<open>load_data\<close> built as it is.
\<close>

lemma monthly_charts_keep_loaded_frame:
  assumes "filtered_df (load_data_tv start_time df) selected_dates P Q = Inr df'"
  shows "snd (plot_monthly_revenue_line start_time df') = df' \<and>
    snd (plot_monthly_occupancy_rate start_time df') = df' \<and>
    snd (plot_monthly_adr_line start_time df') = df'"
proof -
  from filtered_df_frame [OF assms] load_data_tv_month [of start_time df]
  have "''month'' \<in> set (columns df')"
    and "\<forall>r \<in> set (rows df'). month r = start_time (checkin_date r)"
    by auto
  then have "assign_month start_time df' = df'"
    by (rule assign_month_unchanged)
  then show ?thesis
    by (simp add: plot_monthly_revenue_line_def plot_monthly_occupancy_rate_def
        plot_monthly_adr_line_def Let_def)
qed

theorem calculate_kpis_changes_frame:
  "snd (calculate_kpis_gd scenario_table) \<noteq> scenario_table \<and>
   snd (calculate_kpis_tv scenario_table) \<noteq> scenario_table"
proof
  have "columns (snd (calculate_kpis_gd scenario_table)) \<noteq> columns scenario_table"
    by (simp add: gd_snd scenario_table_def review_columns_def assign_column_def)
  then show "snd (calculate_kpis_gd scenario_table) \<noteq> scenario_table"
    by auto
  have "map booking_date (rows (snd (calculate_kpis_tv scenario_table))) \<noteq>
      map booking_date (rows scenario_table)"
    by (simp add: tv_snd scenario_table_def booking_row_def)
  then show "snd (calculate_kpis_tv scenario_table) \<noteq> scenario_table"
    by auto
qed

text \<open>
  C3, as amended. The chart functions that only group and sum leave the frame they
  are given as it was, and filtering builds a frame with the same columns and a
  selection of the rows. \<^verbatim>\<open>calculate_kpis\<close> changes the frame it is given: it
  replaces the booking date column by its parsed form and, in
  \<^verbatim>\<open>Globlal_Dashboard.py\<close>, stores a \<^verbatim>\<open>lead_time\<close> column; the other columns and
  the number of rows stay. The three monthly charts store the month column, which
  leaves a frame unchanged when it already holds the month of each check-in date.
\<close>

theorem frame_effects:
  "snd (calculate_kpis_gd df) =
     \<lparr>columns = assign_column ''lead_time'' (columns df),
      rows = map (\<lambda>r. r\<lparr>booking_date := Timestamp (to_day (booking_date r)),
                          lead_time := checkin_date r - to_day (booking_date r)\<rparr>) (rows df)\<rparr> \<and>
   snd (calculate_kpis_tv df) =
     df\<lparr>rows := map (\<lambda>r. r\<lparr>booking_date := Timestamp (to_day (booking_date r))\<rparr>) (rows df)\<rparr> \<and>
   snd (plot_revenue_per_platform df) = df \<and>
   snd (plot_revenue_percentage_per_platform df) = df \<and>
   snd (plot_nights_booked_percentage_per_platform_gd df) = df \<and>
   snd (plot_nights_booked_percentage_per_platform_tv df) = df \<and>
   snd (plot_stacked_revenue_by_property_platform_gd df) = df \<and>
   snd (plot_stacked_revenue_by_property_platform_tv df) = df \<and>
   snd (plot_monthly_revenue_line start_time df) = assign_month start_time df \<and>
   snd (plot_monthly_occupancy_rate start_time df) = assign_month start_time df \<and>
   snd (plot_monthly_adr_line start_time df) = assign_month start_time df \<and>
   (''month'' \<in> set (columns df) \<and> (\<forall>r \<in> set (rows df). month r = start_time (checkin_date r))
      \<longrightarrow> assign_month start_time df = df) \<and>
   (\<forall>df'. filtered_df df selected_dates P Q = Inr df' \<longrightarrow>
      columns df' = columns df \<and> set (rows df') \<subseteq> set (rows df) \<and>
      length (rows df') \<le> length (rows df))"
proof (intro conjI allI impI)
  show "snd (calculate_kpis_gd df) =
     \<lparr>columns = assign_column ''lead_time'' (columns df),
      rows = map (\<lambda>r. r\<lparr>booking_date := Timestamp (to_day (booking_date r)),
                          lead_time := checkin_date r - to_day (booking_date r)\<rparr>) (rows df)\<rparr>"
    by (rule gd_snd)
  show "snd (calculate_kpis_tv df) =
     df\<lparr>rows := map (\<lambda>r. r\<lparr>booking_date := Timestamp (to_day (booking_date r))\<rparr>) (rows df)\<rparr>"
    by (rule tv_snd)
  show "snd (plot_revenue_per_platform df) = df"
    by (simp add: plot_revenue_per_platform_def)
  show "snd (plot_revenue_percentage_per_platform df) = df"
    by (simp add: plot_revenue_percentage_per_platform_def)
  show "snd (plot_nights_booked_percentage_per_platform_gd df) = df"
    by (simp add: plot_nights_booked_percentage_per_platform_gd_def)
  show "snd (plot_nights_booked_percentage_per_platform_tv df) = df"
    by (simp add: plot_nights_booked_percentage_per_platform_tv_def)
  show "snd (plot_stacked_revenue_by_property_platform_gd df) = df"
    by (simp add: plot_stacked_revenue_by_property_platform_gd_def Let_def)
  show "snd (plot_stacked_revenue_by_property_platform_tv df) = df"
    by (simp add: plot_stacked_revenue_by_property_platform_tv_def)
  show "snd (plot_monthly_revenue_line start_time df) = assign_month start_time df"
    by (simp add: plot_monthly_revenue_line_def Let_def)
  show "snd (plot_monthly_occupancy_rate start_time df) = assign_month start_time df"
    by (simp add: plot_monthly_occupancy_rate_def Let_def)
  show "snd (plot_monthly_adr_line start_time df) = assign_month start_time df"
    by (simp add: plot_monthly_adr_line_def Let_def)
next
  assume "''month'' \<in> set (columns df) \<and>
    (\<forall>r \<in> set (rows df). month r = start_time (checkin_date r))"
  then show "assign_month start_time df = df"
    by (simp add: assign_month_unchanged)
next
  fix df'
  assume f: "filtered_df df selected_dates P Q = Inr df'"
  from filtered_df_frame [OF f]
  show "columns df' = columns df" and "set (rows df') \<subseteq> set (rows df)"
    and "length (rows df') \<le> length (rows df)"
    by simp_all
qed

theorem frame_effects_witness:
  "''month'' \<in> set (columns scenario_table) \<and>
   snd (plot_monthly_occupancy_rate (\<lambda>d. 0) scenario_table) = scenario_table \<and>
   length (rows (snd (calculate_kpis_gd scenario_table))) = 3 \<and>
   (\<exists>df'. filtered_df scenario_table [0, 7] [] [] = Inr df' \<and>
      columns df' = columns scenario_table \<and> length (rows df') \<le> 3)"
proof -
  have m: "''month'' \<in> set (columns scenario_table)"
    by (simp add: scenario_table_def)
  have r: "\<forall>r \<in> set (rows scenario_table). month r = (\<lambda>d. 0) (checkin_date r)"
    by (simp add: scenario_table_def booking_row_def)
  have n: "length (rows scenario_table) = 3"
    by (simp add: scenario_table_def)
  obtain df' where f: "filtered_df scenario_table [0, 7] [] [] = Inr df'"
    by (simp add: filtered_df_def Let_def)
  note fe = frame_effects [of scenario_table "\<lambda>d. 0" "[0, 7]" "[]" "[]"]
  from fe m r have "snd (plot_monthly_occupancy_rate (\<lambda>d. 0) scenario_table) = scenario_table"
    by simp
  moreover from fe n have "length (rows (snd (calculate_kpis_gd scenario_table))) = 3"
    by simp
  moreover from fe f n have "columns df' = columns scenario_table \<and> length (rows df') \<le> 3"
    by simp
  ultimately show ?thesis
    using m f by blast
qed

section \<open>Available nights and the occupancy rate\<close>

text \<open>
  On a table with at least one row the available nights are the days from the
  earliest check-in to the latest check-out, both counted, times the number of
  distinct properties; where that number is not zero the occupancy rate is the
  rounded percentage of the nights in it.
\<close>

lemma total_available_nights_formula:
  assumes "rows df \<noteq> []"
  shows "total_available_nights df =
    Fin (of_int (Max (checkout_date ` set (rows df)) - Min (checkin_date ` set (rows df)) + 1) *
         real (card (property_name ` set (rows df))))"
proof -
  from assms have "period_days df =
      Fin (of_int (Max (checkout_date ` set (rows df)) - Min (checkin_date ` set (rows df)) + 1))"
    by (simp add: period_days_def series_max_Max series_min_Min)
  moreover have "num_properties df = card (property_name ` set (rows df))"
    by (simp add: num_properties_def length_remdups_card_conv)
  ultimately show ?thesis
    by (simp add: total_available_nights_def)
qed

lemma occupancy_rate_formula:
  assumes "total_available_nights df = Fin a" and "a \<noteq> 0"
  shows "map_of (fst (calculate_kpis_gd df)) ''Occupancy Rate (%)'' =
    Some (Fin (round2 (of_int (total_nights df) / a * 100)))"
  using assms by (simp add: gd_fst)

lemma available_nights_positive:
  assumes "rows df \<noteq> []" and "\<forall>r \<in> set (rows df). checkin_date r \<le> checkout_date r"
  shows "\<exists>a. total_available_nights df = Fin a \<and> 1 \<le> a"
proof -
  let ?lo = "Min (checkin_date ` set (rows df))"
  let ?hi = "Max (checkout_date ` set (rows df))"
  from assms(1) obtain r where r: "r \<in> set (rows df)"
    by (cases "rows df") auto
  then have "?lo \<le> checkin_date r" and "checkout_date r \<le> ?hi"
    by simp_all
  moreover from assms(2) r have "checkin_date r \<le> checkout_date r"
    by blast
  ultimately have span: "1 \<le> ?hi - ?lo + 1"
    by linarith
  from r have "property_name r \<in> property_name ` set (rows df)"
    by simp
  then have "0 < card (property_name ` set (rows df))"
    by (auto simp: card_gt_0_iff)
  then have "1 \<le> real (card (property_name ` set (rows df)))"
    by simp
  moreover from span have "1 \<le> (of_int (?hi - ?lo + 1) :: real)"
    by linarith
  ultimately have "1 * 1 \<le> (of_int (?hi - ?lo + 1) :: real) * real (card (property_name ` set (rows df)))"
    by (intro mult_mono) simp_all
  with total_available_nights_formula [OF assms(1)] show ?thesis
    by simp
qed

text \<open>
  C4. The available nights and the occupancy rate follow the stated formulas, and
  where the available nights are 0 the aggregator signals an error or reports 0,
  never dividing unguarded. The division of the occupancy rate has no guard (the
  RevPAR line below it guards the same divisor): for a booking whose check-out is the
  day before its check-in the available nights are 0, the occupancy rate is
  infinite and the RevPAR is 0; on the table with no row the available nights and the
  occupancy rate are NaN.
\<close>

theorem occupancy_rate_unguarded:
  "total_available_nights inverted_dates_table = Fin 0 \<and>
   map_of (fst (calculate_kpis_gd inverted_dates_table)) ''Occupancy Rate (%)'' = Some PInf \<and>
   map_of (fst (calculate_kpis_gd inverted_dates_table)) ''Revenue Per Available Room (RevPAR)'' =
     Some (Fin 0) \<and>
   (\<exists>kp. fst (calculate_kpis_tv inverted_dates_table) = Inr kp \<and>
      map_of kp ''Occupancy Rate (%)'' = Some PInf) \<and>
   total_available_nights empty_table = NaN \<and>
   map_of (fst (calculate_kpis_gd empty_table)) ''Occupancy Rate (%)'' = Some NaN"
proof -
  have a: "total_available_nights inverted_dates_table = Fin 0"
    by (simp add: total_available_nights_def period_days_def num_properties_def
        inverted_dates_table_def booking_row_def)
  have n: "total_nights inverted_dates_table = 1"
    by (simp add: total_nights_def inverted_dates_table_def booking_row_def)
  have ne: "rows inverted_dates_table \<noteq> []"
    by (simp add: inverted_dates_table_def)
  have e: "total_available_nights empty_table = NaN"
    by (simp add: total_available_nights_def period_days_def empty_table_def)
  show ?thesis
    by (simp add: gd_fst tv_fst [OF ne] a n e)
qed

section \<open>Average daily rate\<close>



section \<open>Cancellation rate\<close>



section \<open>Filter application\<close>

text \<open>
  C7. With two selected dates the filter keeps exactly the rows whose check-in date
  lies between them, both included, and whose platform (property) is in the platform
  (property) list whenever that list is not empty. An empty platform list keeps what
  the date and property conditions keep, and a one-platform list keeps the rows of
  that platform among those.
\<close>

theorem filter_application:
  "filtered_df df [d0, d1] P Q =
     Inr (df\<lparr>rows := filter (\<lambda>r. d0 \<le> checkin_date r \<and> checkin_date r \<le> d1 \<and>
                                  (P \<noteq> [] \<longrightarrow> platform r \<in> set P) \<and>
                                  (Q \<noteq> [] \<longrightarrow> property_name r \<in> set Q)) (rows df)\<rparr>) \<and>
   (\<exists>f0 f1. filtered_df df [d0, d1] [] Q = Inr f0 \<and> filtered_df df [d0, d1] [p] Q = Inr f1 \<and>
      rows f0 = filter (\<lambda>r. d0 \<le> checkin_date r \<and> checkin_date r \<le> d1 \<and>
                             (Q \<noteq> [] \<longrightarrow> property_name r \<in> set Q)) (rows df) \<and>
      rows f1 = filter (\<lambda>r. platform r = p) (rows f0) \<and>
      set (rows f1) \<subseteq> set (rows f0) \<and> length (rows f1) \<le> length (rows f0))"
proof -
  have main: "filtered_df df [d0, d1] P' Q =
     Inr (df\<lparr>rows := filter (\<lambda>r. d0 \<le> checkin_date r \<and> checkin_date r \<le> d1 \<and>
                                  (P' \<noteq> [] \<longrightarrow> platform r \<in> set P') \<and>
                                  (Q \<noteq> [] \<longrightarrow> property_name r \<in> set Q)) (rows df)\<rparr>)" for P'
    by (auto simp: filtered_df_def Let_def intro: filter_cong)
  let ?base = "filter (\<lambda>r. d0 \<le> checkin_date r \<and> checkin_date r \<le> d1 \<and>
                             (Q \<noteq> [] \<longrightarrow> property_name r \<in> set Q)) (rows df)"
  have f0: "filtered_df df [d0, d1] [] Q = Inr (df\<lparr>rows := ?base\<rparr>)"
    by (auto simp: filtered_df_def Let_def intro: filter_cong)
  have eq: "filter (\<lambda>r. d0 \<le> checkin_date r \<and> checkin_date r \<le> d1 \<and>
               ([p] \<noteq> [] \<longrightarrow> platform r \<in> set [p]) \<and>
               (Q \<noteq> [] \<longrightarrow> property_name r \<in> set Q)) (rows df) =
            filter (\<lambda>r. platform r = p) ?base"
    by (auto intro: filter_cong)
  have f1: "filtered_df df [d0, d1] [p] Q = Inr (df\<lparr>rows := filter (\<lambda>r. platform r = p) ?base\<rparr>)"
    using main [of "[p]"] unfolding eq .
  have sub: "set (filter (\<lambda>r. platform r = p) ?base) \<subseteq> set ?base"
    by (rule filter_is_subset)
  have len: "length (filter (\<lambda>r. platform r = p) ?base) \<le> length ?base"
    by (rule length_filter_le)
  have "\<exists>f0 f1. filtered_df df [d0, d1] [] Q = Inr f0 \<and> filtered_df df [d0, d1] [p] Q = Inr f1 \<and>
      rows f0 = ?base \<and> rows f1 = filter (\<lambda>r. platform r = p) (rows f0) \<and>
      set (rows f1) \<subseteq> set (rows f0) \<and> length (rows f1) \<le> length (rows f0)"
    unfolding f0 f1 using sub len
    by (intro exI [of _ "df\<lparr>rows := ?base\<rparr>"]
        exI [of _ "df\<lparr>rows := filter (\<lambda>r. platform r = p) ?base\<rparr>"]) simp
  with main show ?thesis
    by blast
qed

theorem filter_application_witness:
  "(\<exists>f. filtered_df scenario_table [0, 20] [''vrbo''] [''B''] = Inr f \<and>
      map revenue (rows f) = [150]) \<and>
   (\<exists>f. filtered_df scenario_table [0, 5] [] [] = Inr f \<and> map revenue (rows f) = [100, 200])"
proof -
  have "map revenue (filter (\<lambda>r. 0 \<le> checkin_date r \<and> checkin_date r \<le> 20 \<and>
      ([''vrbo''] \<noteq> [] \<longrightarrow> platform r \<in> set [''vrbo'']) \<and>
      ([''B''] \<noteq> [] \<longrightarrow> property_name r \<in> set [''B''])) (rows scenario_table)) = [150]"
    by (simp add: scenario_table_def booking_row_def)
  moreover have "map revenue (filter (\<lambda>r. 0 \<le> checkin_date r \<and> checkin_date r \<le> 5 \<and>
      (([]::string list) \<noteq> [] \<longrightarrow> platform r \<in> set []) \<and>
      (([]::string list) \<noteq> [] \<longrightarrow> property_name r \<in> set [])) (rows scenario_table)) = [100, 200]"
    by (simp add: scenario_table_def booking_row_def)
  ultimately show ?thesis
    using filter_application [of scenario_table 0 20 "[''vrbo'']" "[''B'']"]
      filter_application [of scenario_table 0 5 "[]" "[]"]
    by simp
qed

section \<open>Rating averages\<close>




section \<open>Nightly rate\<close>

theorem nightly_rate_infinite:
  "map nightly_rate (rows (load_data_gd (\<lambda>d. d) zero_nights_table)) = [PInf]"
  by (simp add: load_data_gd_def zero_nights_table_def booking_row_def)

text \<open>
  C9, as amended. The nightly rate that \<^verbatim>\<open>load_data\<close> of \<^verbatim>\<open>Globlal_Dashboard.py\<close>
  derives never fails: every row gets one. For a booking of no night it is NaN when
  the revenue is 0, plus infinity when the revenue is positive and minus infinity
  when it is negative; for any other booking it is the revenue divided by the nights.
\<close>

theorem nightly_rate_derivation:
  "map nightly_rate (rows (load_data_gd start_time df)) =
     map (\<lambda>r. if nights r = 0
               then (if revenue r = 0 then NaN else if 0 < revenue r then PInf else NInf)
               else Fin (revenue r / of_int (nights r)))
       (rows df)"
  by (simp add: load_data_gd_def comp_def)

theorem nightly_rate_derivation_witness:
  "map nightly_rate (rows (load_data_gd (\<lambda>d. d) scenario_table)) = [Fin 50, Fin 100, Fin 50] \<and>
   map nightly_rate (rows (load_data_gd (\<lambda>d. d)
      (zero_nights_table\<lparr>rows := map (\<lambda>r. r\<lparr>revenue := 0\<rparr>) (rows zero_nights_table)\<rparr>))) = [NaN]"
  unfolding nightly_rate_derivation
  by (simp add: scenario_table_def zero_nights_table_def booking_row_def)

section \<open>The two variants of the aggregator\<close>

theorem variants_differ_on_empty_table:
  "fst (calculate_kpis_tv empty_table) = Inl ZeroDivisionError \<and>
   map_of (fst (calculate_kpis_gd empty_table)) ''Number of Reservations'' = Some (Fin 0) \<and>
   map_of (fst (calculate_kpis_gd empty_table)) ''Total Revenue'' = Some (Fin 0)"
  by (simp add: gd_fst tv_raises empty_table_def total_revenue_def)

text \<open>
  C10, as amended. On every table with at least one row the two variants of
  \<^verbatim>\<open>calculate_kpis\<close> both return a mapping, with the same value under every key but
  the cancellation rate, which only the mapping of \<^verbatim>\<open>test_version.py\<close> has.
\<close>

theorem variants_agree:
  assumes "rows df \<noteq> []"
  shows "\<exists>kp. fst (calculate_kpis_tv df) = Inr kp \<and>
    (\<forall>k. k \<noteq> ''Cancellation Rate (%)'' \<longrightarrow> map_of kp k = map_of (fst (calculate_kpis_gd df)) k) \<and>
    map_of kp ''Cancellation Rate (%)'' \<noteq> None \<and>
    map_of (fst (calculate_kpis_gd df)) ''Cancellation Rate (%)'' = None"
  unfolding tv_fst [OF assms] gd_fst
  by (intro exI conjI allI impI, rule refl, erule kpi_lists_agree) simp_all

theorem variants_agree_witness:
  "rows scenario_table \<noteq> [] \<and>
   (\<exists>kp. fst (calculate_kpis_tv scenario_table) = Inr kp \<and>
      map_of kp ''Occupancy Rate (%)'' = Some (Fin 25) \<and>
      map_of kp ''Average Lead Time (days)'' = Some (Fin 9))"
proof -
  have ne: "rows scenario_table \<noteq> []"
    by (simp add: scenario_table_def)
  have n: "total_nights scenario_table = 7"
    by (simp add: total_nights_def scenario_table_def booking_row_def)
  have a: "total_available_nights scenario_table = Fin 28"
    by (simp add: total_available_nights_def period_days_def num_properties_def
        scenario_table_def booking_row_def)
  have o: "map_of (fst (calculate_kpis_gd scenario_table)) ''Occupancy Rate (%)'' = Some (Fin 25)"
    by (simp add: gd_fst n a round2_def rint_def)
  have l: "map_of (fst (calculate_kpis_gd scenario_table)) ''Average Lead Time (days)'' =
      Some (Fin 9)"
    by (simp add: gd_fst series_mean_def scenario_table_def booking_row_def round2_def rint_def)
  from variants_agree [OF ne] obtain kp where kp: "fst (calculate_kpis_tv scenario_table) = Inr kp"
    and same: "\<forall>k. k \<noteq> ''Cancellation Rate (%)'' \<longrightarrow>
      map_of kp k = map_of (fst (calculate_kpis_gd scenario_table)) k"
    by blast
  from same o have "map_of kp ''Occupancy Rate (%)'' = Some (Fin 25)"
    by simp
  moreover from same l have "map_of kp ''Average Lead Time (days)'' = Some (Fin 9)"
    by simp
  ultimately show ?thesis
    using ne kp by blast
qed

end
